theory Spec2Isabelle
  imports Main "HOL-Library.AList"
begin

section \<open>Python values, objects and the store\<close>

text \<open>
  The module \<^verbatim>\<open>amun/api_v1.py\<close> works on JSON-like documents: dictionaries and lists are
  mutable objects that are passed by reference, the other values are immutable. The
  embedding keeps that distinction. A value is a scalar or a reference into a store; the
  store is the list of all allocated objects, an address is an index into it, and
  allocation appends. A dictionary is an association list in insertion order with
  pairwise different keys, as Python's \<^verbatim>\<open>dict\<close> is. Floating point numbers are not part
  of the embedding. Characters are 8-bit, so a string is a Latin-1 string.

  The leading underscore of the module's private names is dropped, since an Isabelle
  name cannot start with one.
\<close>

type_synonym addr = nat

datatype pyval = PNone | PBool bool | PInt int | PStr string | PRef addr

datatype pyobj = PDict "(string \<times> pyval) list" | PList "pyval list"

type_synonym heap = "pyobj list"

text \<open>
  The exceptions that the modelled code can raise or meet: those of Python itself, the
  two exception classes the module imports, and \<open>OtherException\<close> for anything else
  that a call into a library raises. \<open>InvalidRef\<close> has no counterpart in Python: it is
  the result of following a reference that points outside the store, which no Python
  program can construct.
\<close>

datatype error =
    RecursionError
  | KeyError string
  | IndexError
  | TypeError
  | ValueError
  | AttributeError
  | NameError string
  | NotFoundException
  | ScriptObtainingError string
  | OtherException string
  | InvalidRef

abbreviation (input) sq :: char where
  "sq \<equiv> CHR 0x27"

definition deref :: "heap \<Rightarrow> addr \<Rightarrow> error + pyobj" where
  "deref h a = (if a < length h then Inr (h ! a) else Inl InvalidRef)"

definition alloc :: "heap \<Rightarrow> pyobj \<Rightarrow> heap \<times> pyval" where
  "alloc h ob = (h @ [ob], PRef (length h))"

subsection \<open>Built-in operations\<close>

fun is_prefix :: "string \<Rightarrow> string \<Rightarrow> bool" where
  "is_prefix [] s = True"
| "is_prefix (c # cs) [] = False"
| "is_prefix (c # cs) (d # ds) = (c = d \<and> is_prefix cs ds)"

fun is_substring :: "string \<Rightarrow> string \<Rightarrow> bool" where
  "is_substring k [] = (k = [])"
| "is_substring k (c # cs) = (is_prefix k (c # cs) \<or> is_substring k cs)"

text \<open>\<^verbatim>\<open>key in x\<close> for a string key: membership in the keys of a dictionary, in the
  elements of a list, or as a substring of a string; a \<^verbatim>\<open>TypeError\<close> otherwise.\<close>

definition py_contains :: "heap \<Rightarrow> pyval \<Rightarrow> string \<Rightarrow> error + bool" where
  "py_contains h x key =
     (case x of
        PRef a \<Rightarrow>
          (case deref h a of
             Inl e \<Rightarrow> Inl e
           | Inr (PDict kvs) \<Rightarrow> Inr (key \<in> set (map fst kvs))
           | Inr (PList vs) \<Rightarrow> Inr (PStr key \<in> set vs))
      | PStr s \<Rightarrow> Inr (is_substring key s)
      | _ \<Rightarrow> Inl TypeError)"

text \<open>\<^verbatim>\<open>x[key]\<close> for a string key.\<close>

definition py_getitem :: "heap \<Rightarrow> pyval \<Rightarrow> string \<Rightarrow> error + pyval" where
  "py_getitem h x key =
     (case x of
        PRef a \<Rightarrow>
          (case deref h a of
             Inl e \<Rightarrow> Inl e
           | Inr (PDict kvs) \<Rightarrow>
               (case map_of kvs key of None \<Rightarrow> Inl (KeyError key) | Some v \<Rightarrow> Inr v)
           | Inr (PList vs) \<Rightarrow> Inl TypeError)
      | _ \<Rightarrow> Inl TypeError)"

text \<open>\<^verbatim>\<open>x[key] = v\<close> for a string key: an existing key keeps its place, a new key goes
  to the end (\<^const>\<open>AList.update\<close>).\<close>

definition py_setitem :: "heap \<Rightarrow> pyval \<Rightarrow> string \<Rightarrow> pyval \<Rightarrow> error + heap" where
  "py_setitem h x key v =
     (case x of
        PRef a \<Rightarrow>
          (case deref h a of
             Inl e \<Rightarrow> Inl e
           | Inr (PDict kvs) \<Rightarrow> Inr (h[a := PDict (AList.update key v kvs)])
           | Inr (PList vs) \<Rightarrow> Inl TypeError)
      | _ \<Rightarrow> Inl TypeError)"

text \<open>\<^verbatim>\<open>x[i] = v\<close> for the index \<open>i\<close> that \<^verbatim>\<open>enumerate\<close> has just produced.\<close>

definition py_setindex :: "heap \<Rightarrow> addr \<Rightarrow> nat \<Rightarrow> pyval \<Rightarrow> error + heap" where
  "py_setindex h a i v =
     (case deref h a of
        Inl e \<Rightarrow> Inl e
      | Inr (PList vs) \<Rightarrow>
          (if i < length vs then Inr (h[a := PList (vs[i := v])]) else Inl IndexError)
      | Inr (PDict kvs) \<Rightarrow> Inl TypeError)"

text \<open>\<^verbatim>\<open>x.get(key)\<close>: only a dictionary has the method.\<close>

definition py_get :: "heap \<Rightarrow> pyval \<Rightarrow> string \<Rightarrow> error + pyval" where
  "py_get h x key =
     (case x of
        PRef a \<Rightarrow>
          (case deref h a of
             Inl e \<Rightarrow> Inl e
           | Inr (PDict kvs) \<Rightarrow>
               (case map_of kvs key of None \<Rightarrow> Inr PNone | Some v \<Rightarrow> Inr v)
           | Inr (PList vs) \<Rightarrow> Inl AttributeError)
      | _ \<Rightarrow> Inl AttributeError)"

text \<open>\<^verbatim>\<open>x.copy()\<close>: a new object with the same entries (a shallow copy); scalars
  have no such method.\<close>

definition py_copy :: "heap \<Rightarrow> pyval \<Rightarrow> error + (heap \<times> pyval)" where
  "py_copy h x =
     (case x of
        PRef a \<Rightarrow> (case deref h a of Inl e \<Rightarrow> Inl e | Inr ob \<Rightarrow> Inr (alloc h ob))
      | _ \<Rightarrow> Inl AttributeError)"

text \<open>Truth value of \<open>x\<close>, as \<^verbatim>\<open>or\<close> tests it.\<close>

definition py_truthy :: "heap \<Rightarrow> pyval \<Rightarrow> error + bool" where
  "py_truthy h x =
     (case x of
        PNone \<Rightarrow> Inr False
      | PBool b \<Rightarrow> Inr b
      | PInt n \<Rightarrow> Inr (n \<noteq> 0)
      | PStr s \<Rightarrow> Inr (s \<noteq> [])
      | PRef a \<Rightarrow>
          (case deref h a of
             Inl e \<Rightarrow> Inl e
           | Inr (PDict kvs) \<Rightarrow> Inr (kvs \<noteq> [])
           | Inr (PList vs) \<Rightarrow> Inr (vs \<noteq> [])))"

subsection \<open>Decimal strings\<close>

definition digit_char :: "nat \<Rightarrow> char" where
  "digit_char n = char_of (48 + n)"

function str_of_nat :: "nat \<Rightarrow> string" where
  "str_of_nat n = (if n < 10 then [digit_char n] else str_of_nat (n div 10) @ [digit_char (n mod 10)])"
  by pat_completeness auto
termination
  by (relation "measure id") auto

definition str_of_int :: "int \<Rightarrow> string" where
  "str_of_int i = (if i < 0 then CHR ''-'' # str_of_nat (nat (- i)) else str_of_nat (nat i))"

text \<open>
  \<^verbatim>\<open>str(x)\<close>. The string form of a dictionary or list (its \<^verbatim>\<open>repr\<close>) is not fixed
  here: it is the parameter \<open>container_str\<close>, and every result below holds for any
  such function.
\<close>

definition py_str :: "(heap \<Rightarrow> addr \<Rightarrow> string) \<Rightarrow> heap \<Rightarrow> pyval \<Rightarrow> string" where
  "py_str container_str h x =
     (case x of
        PNone \<Rightarrow> ''None''
      | PBool b \<Rightarrow> (if b then ''True'' else ''False'')
      | PInt n \<Rightarrow> str_of_int n
      | PStr s \<Rightarrow> s
      | PRef a \<Rightarrow> container_str h a)"

definition is_space :: "char \<Rightarrow> bool" where
  "is_space c = (of_char c \<in> {9, 10, 11, 12, 13, 28, 29, 30, 31, 32, 133, 160 :: nat})"

definition is_digit :: "char \<Rightarrow> bool" where
  "is_digit c = (48 \<le> (of_char c :: nat) \<and> (of_char c :: nat) \<le> 57)"

text \<open>Digits with single underscores between them, as \<^verbatim>\<open>int\<close> accepts them; \<open>prev\<close>
  tells that the character before was a digit.\<close>

fun parse_digits :: "bool \<Rightarrow> int \<Rightarrow> string \<Rightarrow> int option" where
  "parse_digits prev acc [] = (if prev then Some acc else None)"
| "parse_digits prev acc (c # cs) =
     (if is_digit c then parse_digits True (10 * acc + (int (of_char c) - 48)) cs
      else if c = CHR ''_'' \<and> prev then parse_digits False acc cs
      else None)"

definition strip :: "string \<Rightarrow> string" where
  "strip s = rev (dropWhile is_space (rev (dropWhile is_space s)))"

definition int_of_str :: "string \<Rightarrow> int option" where
  "int_of_str s =
     (case strip s of
        [] \<Rightarrow> None
      | c # cs \<Rightarrow>
          if c = CHR ''-'' then map_option uminus (parse_digits False 0 cs)
          else if c = CHR ''+'' then parse_digits False 0 cs
          else parse_digits False 0 (c # cs))"

text \<open>\<^verbatim>\<open>int(x)\<close>.\<close>

definition py_int :: "pyval \<Rightarrow> error + int" where
  "py_int x =
     (case x of
        PInt n \<Rightarrow> Inr n
      | PBool b \<Rightarrow> Inr (if b then 1 else 0)
      | PStr s \<Rightarrow> (case int_of_str s of None \<Rightarrow> Inl ValueError | Some n \<Rightarrow> Inr n)
      | PNone \<Rightarrow> Inl TypeError
      | PRef a \<Rightarrow> Inl TypeError)"

subsection \<open>Regular expression substitution\<close>

text \<open>
  \<^verbatim>\<open>re.sub(pattern, repl, s)\<close> scans \<open>s\<close> from the left. The pattern is given as a
  matcher: applied to the rest of the string it returns the length of the match that
  starts there, if there is one (it sees the whole rest, so it can look ahead). A match
  is replaced by \<open>repl\<close> and the scan goes on behind it; where nothing matches, the
  character is copied. (An empty match, which neither pattern of this module has, puts
  \<open>repl\<close> in front of the character, or at the end of the string.)
\<close>

function re_sub :: "(string \<Rightarrow> nat option) \<Rightarrow> string \<Rightarrow> string \<Rightarrow> string" where
  "re_sub m repl [] = (case m [] of None \<Rightarrow> [] | Some k \<Rightarrow> repl)"
| "re_sub m repl (c # cs) =
     (case m (c # cs) of
        None \<Rightarrow> c # re_sub m repl cs
      | Some 0 \<Rightarrow> repl @ c # re_sub m repl cs
      | Some (Suc k) \<Rightarrow> repl @ re_sub m repl (drop k cs))"
  by pat_completeness auto
termination
  by (relation "measure (\<lambda>(m, repl, s). length s)") auto

text \<open>The pattern \<^verbatim>\<open>'(?!')\<close>: a single quote that is not followed by a single quote.\<close>

definition quote_not_before_quote :: "string \<Rightarrow> nat option" where
  "quote_not_before_quote s =
     (case s of
        [] \<Rightarrow> None
      | [c] \<Rightarrow> if c = sq then Some 1 else None
      | c # d # _ \<Rightarrow> if c = sq \<and> d \<noteq> sq then Some 1 else None)"

text \<open>The pattern \<^verbatim>\<open>''\<close>: two single quotes.\<close>

definition two_quotes :: "string \<Rightarrow> nat option" where
  "two_quotes s =
     (case s of c # d # _ \<Rightarrow> if c = sq \<and> d = sq then Some 2 else None | _ \<Rightarrow> None)"

definition escape_str :: "string \<Rightarrow> string" where
  "escape_str s = re_sub quote_not_before_quote [sq, sq] s"

definition unescape_str :: "string \<Rightarrow> string" where
  "unescape_str s = re_sub two_quotes [sq] s"

section \<open>The specification codec\<close>

subsection \<open>Walking a document\<close>

text \<open>
  \<^verbatim>\<open>_escape_single_quotes\<close> and \<^verbatim>\<open>_unescape_single_quotes\<close> are the same function up to
  the \<^verbatim>\<open>re.sub\<close> call on a string, which is the parameter \<open>sub\<close> here:
  \<^verbatim>\<open>
    def _escape_single_quotes(obj):
        if isinstance(obj, dict):
            for k in obj:
                obj[k] = _escape_single_quotes(obj[k])
        elif isinstance(obj, list):
            for i, v in enumerate(obj):
                obj[i] = _escape_single_quotes(v)
        elif isinstance(obj, str):
            return re.sub(r"'(?!')", "''", obj)
        return obj
  \<close>
  A dictionary or list is updated in place and the same reference is returned; a string
  yields a new string. The first argument bounds the depth of the recursion, as the
  interpreter's recursion limit does: a call with no depth left raises
  \<^verbatim>\<open>RecursionError\<close>. The loops read \<^verbatim>\<open>obj[k]\<close> and \<^verbatim>\<open>obj[i]\<close> from the store at
  each step; an assignment to an existing key or index changes neither the keys nor the
  length, so the keys and indices to visit are those at the start of the loop.
\<close>

function walk_quotes :: "(string \<Rightarrow> string) \<Rightarrow> nat \<Rightarrow> heap \<Rightarrow> pyval \<Rightarrow> error + (heap \<times> pyval)"
  and walk_keys :: "(string \<Rightarrow> string) \<Rightarrow> nat \<Rightarrow> heap \<Rightarrow> addr \<Rightarrow> string list \<Rightarrow> error + heap"
  and walk_indices :: "(string \<Rightarrow> string) \<Rightarrow> nat \<Rightarrow> heap \<Rightarrow> addr \<Rightarrow> nat list \<Rightarrow> error + heap"
where
  "walk_quotes sub 0 h obj = Inl RecursionError"
| "walk_quotes sub (Suc n) h obj =
     (case obj of
        PRef a \<Rightarrow>
          (case deref h a of
             Inl e \<Rightarrow> Inl e
           | Inr (PDict kvs) \<Rightarrow>
               (case walk_keys sub n h a (map fst kvs) of
                  Inl e \<Rightarrow> Inl e
                | Inr h' \<Rightarrow> Inr (h', obj))
           | Inr (PList vs) \<Rightarrow>
               (case walk_indices sub n h a [0 ..< length vs] of
                  Inl e \<Rightarrow> Inl e
                | Inr h' \<Rightarrow> Inr (h', obj)))
      | PStr s \<Rightarrow> Inr (h, PStr (sub s))
      | _ \<Rightarrow> Inr (h, obj))"
| "walk_keys sub n h a [] = Inr h"
| "walk_keys sub n h a (k # ks) =
     (case py_getitem h (PRef a) k of
        Inl e \<Rightarrow> Inl e
      | Inr v \<Rightarrow>
          (case walk_quotes sub n h v of
             Inl e \<Rightarrow> Inl e
           | Inr (h', v') \<Rightarrow>
               (case py_setitem h' (PRef a) k v' of
                  Inl e \<Rightarrow> Inl e
                | Inr h'' \<Rightarrow> walk_keys sub n h'' a ks)))"
| "walk_indices sub n h a [] = Inr h"
| "walk_indices sub n h a (i # is) =
     (case deref h a of
        Inl e \<Rightarrow> Inl e
      | Inr (PDict kvs) \<Rightarrow> Inl TypeError
      | Inr (PList vs) \<Rightarrow>
          (if length vs \<le> i then Inr h
           else
             (case walk_quotes sub n h (vs ! i) of
                Inl e \<Rightarrow> Inl e
              | Inr (h', v') \<Rightarrow>
                  (case py_setindex h' a i v' of
                     Inl e \<Rightarrow> Inl e
                   | Inr h'' \<Rightarrow> walk_indices sub n h'' a is))))"
  by pat_completeness auto
termination
  by (relation "inv_image (less_than <*lex*> less_than)
        (\<lambda>x. case x of
           Inl (sub, n, h, obj) \<Rightarrow> (n, 0)
         | Inr (Inl (sub, n, h, a, ks)) \<Rightarrow> (n, Suc (length ks))
         | Inr (Inr (sub, n, h, a, is)) \<Rightarrow> (n, Suc (length is)))") auto

definition escape_single_quotes :: "nat \<Rightarrow> heap \<Rightarrow> pyval \<Rightarrow> error + (heap \<times> pyval)" where
  "escape_single_quotes = walk_quotes escape_str"

definition unescape_single_quotes :: "nat \<Rightarrow> heap \<Rightarrow> pyval \<Rightarrow> error + (heap \<times> pyval)" where
  "unescape_single_quotes = walk_quotes unescape_str"

subsection \<open>Parsing and unparsing\<close>

text \<open>
  \<^verbatim>\<open>
    int_to_str = ["allowed_failures", "batch_size", "parallelism"]
    for key in int_to_str:
        if key not in specification:
            continue
        parsed_specification[key] = str(specification[key])
  \<close>
  The test and the read are on the caller's document, the write is on the copy.
\<close>

fun int_to_str_loop ::
  "(heap \<Rightarrow> addr \<Rightarrow> string) \<Rightarrow> heap \<Rightarrow> pyval \<Rightarrow> pyval \<Rightarrow> string list \<Rightarrow> error + heap"
where
  "int_to_str_loop cstr h specification parsed_specification [] = Inr h"
| "int_to_str_loop cstr h specification parsed_specification (key # keys) =
     (case py_contains h specification key of
        Inl e \<Rightarrow> Inl e
      | Inr False \<Rightarrow> int_to_str_loop cstr h specification parsed_specification keys
      | Inr True \<Rightarrow>
          (case py_getitem h specification key of
             Inl e \<Rightarrow> Inl e
           | Inr v \<Rightarrow>
               (case py_setitem h parsed_specification key (PStr (py_str cstr h v)) of
                  Inl e \<Rightarrow> Inl e
                | Inr h' \<Rightarrow> int_to_str_loop cstr h' specification parsed_specification keys)))"

text \<open>\<^verbatim>\<open>if key not in d: d[key] = {}\<close>, with a new empty dictionary.\<close>

definition default_empty :: "heap \<Rightarrow> pyval \<Rightarrow> string \<Rightarrow> error + heap" where
  "default_empty h d key =
     (case py_contains h d key of
        Inl e \<Rightarrow> Inl e
      | Inr True \<Rightarrow> Inr h
      | Inr False \<Rightarrow> (case alloc h (PDict []) of (h', new) \<Rightarrow> py_setitem h' d key new))"

text \<open>
  \<^verbatim>\<open>_parse_specification(specification)\<close>. \<open>depth\<close> is the recursion depth left for the
  call of \<^verbatim>\<open>_escape_single_quotes\<close>. The result is the store after the call and the
  returned value.
\<close>

definition parse_specification ::
  "(heap \<Rightarrow> addr \<Rightarrow> string) \<Rightarrow> nat \<Rightarrow> heap \<Rightarrow> pyval \<Rightarrow> error + (heap \<times> pyval)"
where
  "parse_specification cstr depth h specification =
     (case py_copy h specification of
        Inl e \<Rightarrow> Inl e
      | Inr (h1, copied) \<Rightarrow>
     (case escape_single_quotes depth h1 copied of
        Inl e \<Rightarrow> Inl e
      | Inr (h2, parsed_specification) \<Rightarrow>
     (case int_to_str_loop cstr h2 specification parsed_specification
             [''allowed_failures'', ''batch_size'', ''parallelism''] of
        Inl e \<Rightarrow> Inl e
      | Inr h3 \<Rightarrow>
     (case default_empty h3 parsed_specification ''build'' of
        Inl e \<Rightarrow> Inl e
      | Inr h4 \<Rightarrow>
     (case default_empty h4 parsed_specification ''run'' of
        Inl e \<Rightarrow> Inl e
      | Inr h5 \<Rightarrow> Inr (h5, parsed_specification))))))"

text \<open>
  \<^verbatim>\<open>
    str_to_int = ["allowed_failures", "batch_size", "parallelism"]
    for key in str_to_int:
        if key not in specification:
            continue
        specification[key] = int(parsed_specification[key])
  \<close>
  Here the test and the write are on the copy and the read is on the argument.
\<close>

fun str_to_int_loop :: "heap \<Rightarrow> pyval \<Rightarrow> pyval \<Rightarrow> string list \<Rightarrow> error + heap" where
  "str_to_int_loop h parsed_specification specification [] = Inr h"
| "str_to_int_loop h parsed_specification specification (key # keys) =
     (case py_contains h specification key of
        Inl e \<Rightarrow> Inl e
      | Inr False \<Rightarrow> str_to_int_loop h parsed_specification specification keys
      | Inr True \<Rightarrow>
          (case py_getitem h parsed_specification key of
             Inl e \<Rightarrow> Inl e
           | Inr v \<Rightarrow>
               (case py_int v of
                  Inl e \<Rightarrow> Inl e
                | Inr n \<Rightarrow>
                    (case py_setitem h specification key (PInt n) of
                       Inl e \<Rightarrow> Inl e
                     | Inr h' \<Rightarrow> str_to_int_loop h' parsed_specification specification keys))))"

definition unparse_specification :: "nat \<Rightarrow> heap \<Rightarrow> pyval \<Rightarrow> error + (heap \<times> pyval)" where
  "unparse_specification depth h parsed_specification =
     (case py_copy h parsed_specification of
        Inl e \<Rightarrow> Inl e
      | Inr (h1, copied) \<Rightarrow>
     (case unescape_single_quotes depth h1 copied of
        Inl e \<Rightarrow> Inl e
      | Inr (h2, specification) \<Rightarrow>
     (case str_to_int_loop h2 parsed_specification specification
             [''allowed_failures'', ''batch_size'', ''parallelism''] of
        Inl e \<Rightarrow> Inl e
      | Inr h3 \<Rightarrow> Inr (h3, specification))))"

subsection \<open>Default requests\<close>

definition DEFAULT_REQUESTS :: "(string \<times> string) list" where
  "DEFAULT_REQUESTS = [(''cpu'', ''500m''), (''memory'', ''256Mi'')]"

definition default_request :: "string \<Rightarrow> error + pyval" where
  "default_request key =
     (case map_of DEFAULT_REQUESTS key of None \<Rightarrow> Inl (KeyError key) | Some s \<Rightarrow> Inr (PStr s))"

text \<open>
  \<^verbatim>\<open>dict_["requests"][key] = dict_["requests"].get(key) or _DEFAULT_REQUESTS[key]\<close>:
  the right-hand side is evaluated first, then the target \<^verbatim>\<open>dict_["requests"]\<close>.
\<close>

definition assign_default_request :: "heap \<Rightarrow> pyval \<Rightarrow> string \<Rightarrow> error + heap" where
  "assign_default_request h dict key =
     (case py_getitem h dict ''requests'' of
        Inl e \<Rightarrow> Inl e
      | Inr requests \<Rightarrow>
     (case py_get h requests key of
        Inl e \<Rightarrow> Inl e
      | Inr present \<Rightarrow>
     (case py_truthy h present of
        Inl e \<Rightarrow> Inl e
      | Inr truthy \<Rightarrow>
     (case (if truthy then Inr present else default_request key) of
        Inl e \<Rightarrow> Inl e
      | Inr v \<Rightarrow>
     (case py_getitem h dict ''requests'' of
        Inl e \<Rightarrow> Inl e
      | Inr target \<Rightarrow> py_setitem h target key v)))))"

text \<open>\<^verbatim>\<open>_adjust_default_requests(dict_)\<close> returns \<^verbatim>\<open>None\<close>; its effect is the new store.\<close>

definition adjust_default_requests :: "heap \<Rightarrow> pyval \<Rightarrow> error + heap" where
  "adjust_default_requests h dict =
     (case default_empty h dict ''requests'' of
        Inl e \<Rightarrow> Inl e
      | Inr h1 \<Rightarrow>
     (case assign_default_request h1 dict ''cpu'' of
        Inl e \<Rightarrow> Inl e
      | Inr h2 \<Rightarrow> assign_default_request h2 dict ''memory''))"

section \<open>The request handlers\<close>

subsection \<open>Job parameters\<close>

text \<open>\<^verbatim>\<open>x.get(key, {})\<close>: the default is a new empty dictionary, built before the call.\<close>

definition py_get_or_empty :: "heap \<Rightarrow> pyval \<Rightarrow> string \<Rightarrow> error + (heap \<times> pyval)" where
  "py_get_or_empty h x key =
     (case alloc h (PDict []) of
        (h', fresh) \<Rightarrow>
          (case x of
             PRef a \<Rightarrow>
               (case deref h' a of
                  Inl e \<Rightarrow> Inl e
                | Inr (PDict kvs) \<Rightarrow>
                    (case map_of kvs key of None \<Rightarrow> Inr (h', fresh) | Some v \<Rightarrow> Inr (h', v))
                | Inr (PList vs) \<Rightarrow> Inl AttributeError)
           | _ \<Rightarrow> Inl AttributeError))"

text \<open>\<^verbatim>\<open>if key in hardware_specification: parameters[name] = hardware_specification[key]\<close>\<close>

definition copy_hardware_parameter ::
  "heap \<Rightarrow> pyval \<Rightarrow> pyval \<Rightarrow> string \<Rightarrow> string \<Rightarrow> error + heap"
where
  "copy_hardware_parameter h hardware_specification parameters key name =
     (case py_contains h hardware_specification key of
        Inl e \<Rightarrow> Inl e
      | Inr False \<Rightarrow> Inr h
      | Inr True \<Rightarrow>
          (case py_getitem h hardware_specification key of
             Inl e \<Rightarrow> Inl e
           | Inr v \<Rightarrow> py_setitem h parameters name v))"

text \<open>\<^verbatim>\<open>_construct_parameters_dict(specification)\<close> returns the pair
  \<^verbatim>\<open>(parameters, use_hw_template)\<close>.\<close>

definition construct_parameters_dict ::
  "heap \<Rightarrow> pyval \<Rightarrow> error + (heap \<times> pyval \<times> bool)"
where
  "construct_parameters_dict h specification =
     (case alloc h (PDict []) of
        (h0, parameters) \<Rightarrow>
     (case py_get_or_empty h0 specification ''requests'' of
        Inl e \<Rightarrow> Inl e
      | Inr (h1, requests) \<Rightarrow>
     (case py_contains h1 requests ''hardware'' of
        Inl e \<Rightarrow> Inl e
      | Inr False \<Rightarrow> Inr (h1, parameters, False)
      | Inr True \<Rightarrow>
     (case py_get_or_empty h1 specification ''requests'' of
        Inl e \<Rightarrow> Inl e
      | Inr (h2, requests') \<Rightarrow>
     (case py_get_or_empty h2 requests' ''hardware'' of
        Inl e \<Rightarrow> Inl e
      | Inr (h3, hardware_specification) \<Rightarrow>
     (case copy_hardware_parameter h3 hardware_specification parameters
             ''cpu_family'' ''CPU_FAMILY'' of
        Inl e \<Rightarrow> Inl e
      | Inr h4 \<Rightarrow>
     (case copy_hardware_parameter h4 hardware_specification parameters
             ''cpu_model'' ''CPU_MODEL'' of
        Inl e \<Rightarrow> Inl e
      | Inr h5 \<Rightarrow>
     (case copy_hardware_parameter h5 hardware_specification parameters
             ''physical_cpus'' ''PHYSICAL_CPUS'' of
        Inl e \<Rightarrow> Inl e
      | Inr h6 \<Rightarrow>
     (case copy_hardware_parameter h6 hardware_specification parameters
             ''processor'' ''PROCESSOR'' of
        Inl e \<Rightarrow> Inl e
      | Inr h7 \<Rightarrow> Inr (h7, parameters, True))))))))))"

subsection \<open>Names\<close>

text \<open>
  The names that the module binds at its top level: its imports, its three module
  variables and its functions. A name that a function never assigns is looked up here
  (and then among Python's built-in names, none of which is \<^verbatim>\<open>inspection_id\<close>).
\<close>

definition module_globals :: "string list" where
  "module_globals =
     [''os'', ''logging'', ''json'', ''random'', ''re'', ''urlparse'', ''deprecated'',
      ''OpenShift'', ''WorkflowManager'', ''datetime2datetime_str'', ''NotFoundException'',
      ''Configuration'', ''create_dockerfile'', ''ScriptObtainingError'',
      ''_LOGGER'', ''_OPENSHIFT'', ''_DEFAULT_REQUESTS'',
      ''_construct_parameters_dict'', ''_do_create_dockerfile'', ''post_generate_dockerfile'',
      ''_adjust_default_requests'', ''_parse_specification'', ''_unparse_specification'',
      ''post_inspection'', ''get_inspection_job_log'', ''get_inspection_job_logs'',
      ''get_inspection_build_log'', ''get_inspection_status'',
      ''get_inspection_specification'']"

text \<open>What a name evaluates to: the value of a local variable, or an object of the
  module, which is not a document value and is kept by its name.\<close>

datatype binding = Value pyval | ModuleObject string

definition load_name :: "(string \<times> pyval) list \<Rightarrow> string \<Rightarrow> error + binding" where
  "load_name locals name =
     (case map_of locals name of
        Some v \<Rightarrow> Inr (Value v)
      | None \<Rightarrow>
          if name \<in> set module_globals then Inr (ModuleObject name)
          else Inl (NameError name))"

subsection \<open>\<^verbatim>\<open>post_inspection\<close>\<close>

text \<open>
  \<^verbatim>\<open>create_dockerfile\<close> (module \<^verbatim>\<open>amun.dockerfile\<close>), \<^verbatim>\<open>datetime2datetime_str\<close> and the
  method \<^verbatim>\<open>schedule_inspection\<close> of the cluster client are not part of this module.
  They are parameters: \<open>create_dockerfile\<close> and \<open>schedule_inspection\<close> are functions
  of the store that return a result and the store they leave, or raise; \<open>created\<close> is
  the time stamp.
\<close>

type_synonym create_dockerfile_fn = "heap \<Rightarrow> pyval \<Rightarrow> error + (heap \<times> pyval \<times> pyval)"

type_synonym schedule_inspection_fn =
  "heap \<Rightarrow> pyval \<Rightarrow> pyval \<Rightarrow> pyval \<Rightarrow> pyval \<Rightarrow> error + (heap \<times> pyval)"

text \<open>
  \<^verbatim>\<open>
    try:
        return create_dockerfile(specification)
    except ScriptObtainingError as exc:
        return None, str(exc)
  \<close>
\<close>

definition do_create_dockerfile ::
  "create_dockerfile_fn \<Rightarrow> heap \<Rightarrow> pyval \<Rightarrow> error + (heap \<times> pyval \<times> pyval)"
where
  "do_create_dockerfile create_dockerfile h specification =
     (case create_dockerfile h specification of
        Inl (ScriptObtainingError msg) \<Rightarrow> Inr (h, PNone, PStr msg)
      | Inl e \<Rightarrow> Inl e
      | Inr r \<Rightarrow> Inr r)"

text \<open>\<^verbatim>\<open>dockerfile.replace("'", "''")\<close>; only a string has the method.\<close>

definition double_quotes :: "pyval \<Rightarrow> error + pyval" where
  "double_quotes x =
     (case x of
        PStr s \<Rightarrow> Inr (PStr (concat (map (\<lambda>c. if c = sq then [sq, sq] else [c]) s)))
      | _ \<Rightarrow> Inl AttributeError)"

text \<open>
  The two responses of \<^verbatim>\<open>post_inspection\<close>, each with its status code:
  \<^verbatim>\<open>({"parameters:": specification, "error": run_job_or_error}, 400)\<close> and
  \<^verbatim>\<open>({"inspection_id": inspection_id, "parameters": specification,
     "workflow_id": workflow_id, "workflow_target": target}, 202)\<close>.
\<close>

datatype inspection_response =
    InspectionError pyval pyval nat
  | InspectionScheduled binding binding binding binding nat

text \<open>
  The function up to its last statement. It ends early with the 400 response, or it
  arrives at the last \<^verbatim>\<open>return\<close> with a store and with the local variables that have
  been assigned on the way, last assignment first.
\<close>

definition post_inspection_body ::
  "create_dockerfile_fn \<Rightarrow> schedule_inspection_fn \<Rightarrow> string \<Rightarrow> (heap \<Rightarrow> addr \<Rightarrow> string) \<Rightarrow>
   nat \<Rightarrow> heap \<Rightarrow> pyval \<Rightarrow>
   error + (heap \<times> (inspection_response + (string \<times> pyval) list))"
where
  "post_inspection_body create_dockerfile schedule_inspection created cstr depth h specification =
     (case do_create_dockerfile create_dockerfile h specification of
        Inl e \<Rightarrow> Inl e
      | Inr (h0, dockerfile, run_job_or_error) \<Rightarrow>
     if dockerfile = PNone
     then Inr (h0, Inl (InspectionError specification run_job_or_error 400))
     else
     (case parse_specification cstr depth h0 specification of
        Inl e \<Rightarrow> Inl e
      | Inr (h1, parsed) \<Rightarrow>
     (case py_getitem h1 parsed ''run'' of
        Inl e \<Rightarrow> Inl e
      | Inr run \<Rightarrow>
     (case adjust_default_requests h1 run of
        Inl e \<Rightarrow> Inl e
      | Inr h2 \<Rightarrow>
     (case py_getitem h2 parsed ''build'' of
        Inl e \<Rightarrow> Inl e
      | Inr build \<Rightarrow>
     (case adjust_default_requests h2 build of
        Inl e \<Rightarrow> Inl e
      | Inr h3 \<Rightarrow>
     (case py_get_or_empty h3 parsed ''build'' of
        Inl e \<Rightarrow> Inl e
      | Inr (h4, build') \<Rightarrow>
     (case construct_parameters_dict h4 build' of
        Inl e \<Rightarrow> Inl e
      | Inr (h5, parameters, use_hw_template) \<Rightarrow>
     (case py_setitem h5 parsed ''@created'' (PStr created) of
        Inl e \<Rightarrow> Inl e
      | Inr h6 \<Rightarrow>
     (case py_truthy h6 run_job_or_error of
        Inl e \<Rightarrow> Inl e
      | Inr run_job_holds \<Rightarrow>
     (case double_quotes dockerfile of
        Inl e \<Rightarrow> Inl e
      | Inr dockerfile' \<Rightarrow>
     (let target = PStr (if run_job_holds then ''inspection-run-result'' else ''inspection-build'') in
     (case schedule_inspection h6 dockerfile' parsed target parameters of
        Inl e \<Rightarrow> Inl e
      | Inr (h7, workflow_id) \<Rightarrow>
          Inr (h7, Inr [(''workflow_id'', workflow_id),
                        (''dockerfile'', dockerfile'),
                        (''target'', target),
                        (''use_hw_template'', PBool use_hw_template),
                        (''parameters'', parameters),
                        (''specification'', parsed),
                        (''run_job'', run_job_or_error),
                        (''run_job_or_error'', run_job_or_error)]))))))))))))))"

text \<open>The last statement: the four names of the dictionary display are evaluated from
  left to right.\<close>

definition post_inspection_return ::
  "(string \<times> pyval) list \<Rightarrow> error + inspection_response"
where
  "post_inspection_return locals =
     (case load_name locals ''inspection_id'' of
        Inl e \<Rightarrow> Inl e
      | Inr inspection_id \<Rightarrow>
     (case load_name locals ''specification'' of
        Inl e \<Rightarrow> Inl e
      | Inr specification \<Rightarrow>
     (case load_name locals ''workflow_id'' of
        Inl e \<Rightarrow> Inl e
      | Inr workflow_id \<Rightarrow>
     (case load_name locals ''target'' of
        Inl e \<Rightarrow> Inl e
      | Inr target \<Rightarrow>
          Inr (InspectionScheduled inspection_id specification workflow_id target 202)))))"

definition post_inspection ::
  "create_dockerfile_fn \<Rightarrow> schedule_inspection_fn \<Rightarrow> string \<Rightarrow> (heap \<Rightarrow> addr \<Rightarrow> string) \<Rightarrow>
   nat \<Rightarrow> heap \<Rightarrow> pyval \<Rightarrow> error + (heap \<times> inspection_response)"
where
  "post_inspection create_dockerfile schedule_inspection created cstr depth h specification =
     (case post_inspection_body create_dockerfile schedule_inspection created cstr depth h
             specification of
        Inl e \<Rightarrow> Inl e
      | Inr (h', Inl response) \<Rightarrow> Inr (h', response)
      | Inr (h', Inr locals) \<Rightarrow>
          (case post_inspection_return locals of
             Inl e \<Rightarrow> Inl e
           | Inr response \<Rightarrow> Inr (h', response)))"

subsection \<open>\<^verbatim>\<open>get_inspection_job_log\<close>\<close>

text \<open>
  A response of \<^verbatim>\<open>get_inspection_job_log\<close> with its status code: either
  \<^verbatim>\<open>({"error": message, "parameters": {"inspection_id": inspection_id}}, status)\<close> or
  \<^verbatim>\<open>({"log": log, "parameters": {"inspection_id": inspection_id}}, status)\<close>.
\<close>

datatype 'j log_response =
    LogError string string nat
  | LogFound 'j string nat

text \<open>
  The method \<^verbatim>\<open>get_job_log\<close> of the cluster client and \<^verbatim>\<open>json.loads\<close> are parameters.
  The log that the client returns is a string or \<^verbatim>\<open>None\<close>.

  The handler of \<^verbatim>\<open>NotFoundException\<close> holds a second \<^verbatim>\<open>try\<close> whose body is one
  \<^verbatim>\<open>return\<close> of a tuple of two constants and a local variable; \<open>no_logs_yet\<close> is the
  outcome of that body. The statement after that \<^verbatim>\<open>try\<close> returns the response with
  status 404.
\<close>

definition no_logs_yet :: "string \<Rightarrow> error + 'j log_response" where
  "no_logs_yet inspection_id =
     Inr (LogError ''No logs available yet for the given inspection id'' inspection_id 202)"

definition get_inspection_job_log ::
  "(string \<Rightarrow> error + string option) \<Rightarrow> (string \<Rightarrow> error + 'j) \<Rightarrow> string \<Rightarrow>
   error + 'j log_response"
where
  "get_inspection_job_log get_job_log json_loads inspection_id =
     (case get_job_log inspection_id of
        Inl NotFoundException \<Rightarrow>
          (case no_logs_yet inspection_id of
             Inr response \<Rightarrow> Inr response
           | Inl NotFoundException \<Rightarrow>
               Inr (LogError ''Job log for the given inspection id was not found''
                      inspection_id 404)
           | Inl e \<Rightarrow> Inl e)
      | Inl e \<Rightarrow> Inl e
      | Inr log \<Rightarrow>
          (case log of
             None \<Rightarrow>
               Inr (LogError
                      ''Inspection run did not produce any log or it was deleted by OpenShift''
                      inspection_id 404)
           | Some content \<Rightarrow>
               if content = []
               then Inr (LogError
                      ''Inspection run did not produce any log or it was deleted by OpenShift''
                      inspection_id 404)
               else
                 (case json_loads content of
                    Inl e \<Rightarrow>
                      Inr (LogError
                             ''Job failed, please contact administrator for more details''
                             inspection_id 500)
                  | Inr parsed \<Rightarrow> Inr (LogFound parsed inspection_id 200))))"

section \<open>Documents in the store\<close>

text \<open>
  A document, as a request or \<^verbatim>\<open>json.loads\<close> delivers it, is a tree: no dictionary or list
  is reached along two paths. Such a document is described by a tree that records, for
  each dictionary and list, the address where it lives. \<open>holds h t\<close> says that the store
  \<open>h\<close> contains the document \<open>t\<close> at these addresses; \<open>addrs t\<close> lists them, and the
  document is a tree in the store when they are pairwise different. \<open>root t\<close> is the value
  that stands for \<open>t\<close>.
\<close>

datatype adoc =
    ANone | ABool bool | AInt int | AStr string
  | ADict addr "(string \<times> adoc) list"
  | AList addr "adoc list"

fun root :: "adoc \<Rightarrow> pyval" where
  "root ANone = PNone"
| "root (ABool b) = PBool b"
| "root (AInt i) = PInt i"
| "root (AStr s) = PStr s"
| "root (ADict a kts) = PRef a"
| "root (AList a ts) = PRef a"




fun amap :: "(string \<Rightarrow> string) \<Rightarrow> adoc \<Rightarrow> adoc" where
  "amap f (AStr s) = AStr (f s)"
| "amap f (ADict a kts) = ADict a (map (\<lambda>kt. (fst kt, amap f (snd kt))) kts)"
| "amap f (AList a ts) = AList a (map (amap f) ts)"
| "amap f t = t"

fun adepth :: "adoc \<Rightarrow> nat" where
  "adepth (ADict a kts) = Suc (Max (set (0 # map (\<lambda>kt. adepth (snd kt)) kts)))"
| "adepth (AList a ts) = Suc (Max (set (0 # map adepth ts)))"
| "adepth t = 1"




subsection \<open>Well-paired strings\<close>

text \<open>
  A string is well paired when no three single quotes stand in a row: every run of
  single quotes is a lone quote or one doubled pair.
\<close>

fun well_paired :: "string \<Rightarrow> bool" where
  "well_paired (a # b # c # cs) = (\<not> (a = sq \<and> b = sq \<and> c = sq) \<and> well_paired (b # c # cs))"
| "well_paired cs = True"

section \<open>Properties of the string substitutions\<close>

lemma escape_str_simps:
  "escape_str [] = []"
  "escape_str [c] = (if c = sq then [sq, sq] else [c])"
  "escape_str (c # d # cs) =
     (if c = sq \<and> d \<noteq> sq then sq # sq # escape_str (d # cs) else c # escape_str (d # cs))"
  by (simp_all add: escape_str_def quote_not_before_quote_def)

lemma unescape_str_simps:
  "unescape_str [] = []"
  "unescape_str [c] = [c]"
  "unescape_str (c # d # cs) =
     (if c = sq \<and> d = sq then sq # unescape_str cs else c # unescape_str (d # cs))"
  by (simp_all add: unescape_str_def two_quotes_def)

lemma escape_str_Cons_nq: "c \<noteq> sq \<Longrightarrow> escape_str (c # cs) = c # escape_str cs"
  by (cases cs) (simp_all add: escape_str_simps)

lemma escape_str_q_q: "escape_str (sq # sq # cs) = sq # escape_str (sq # cs)"
  by (simp add: escape_str_simps)

lemma escape_str_q_nq:
  "cs = [] \<or> hd cs \<noteq> sq \<Longrightarrow> escape_str (sq # cs) = sq # sq # escape_str cs"
  by (cases cs) (simp_all add: escape_str_simps)

lemma escape_str_hd:
  "cs = [] \<or> hd cs \<noteq> sq \<Longrightarrow> escape_str cs = [] \<or> hd (escape_str cs) \<noteq> sq"
  by (cases cs) (auto simp: escape_str_Cons_nq escape_str_simps)

lemma unescape_str_Cons_nq: "c \<noteq> sq \<Longrightarrow> unescape_str (c # cs) = c # unescape_str cs"
  by (cases cs) (simp_all add: unescape_str_simps)

lemma unescape_str_q_q: "unescape_str (sq # sq # cs) = sq # unescape_str cs"
  by (simp add: unescape_str_simps)

lemma unescape_str_q_nq:
  "cs = [] \<or> hd cs \<noteq> sq \<Longrightarrow> unescape_str (sq # cs) = sq # unescape_str cs"
  by (cases cs) (simp_all add: unescape_str_simps)

lemma escape_str_run:
  "r = [] \<or> hd r \<noteq> sq \<Longrightarrow>
   escape_str (replicate (Suc k) sq @ r) = replicate (Suc (Suc k)) sq @ escape_str r"
proof (induction k)
  case 0
  then show ?case by (simp add: escape_str_q_nq)
next
  case (Suc k)
  have "escape_str (replicate (Suc (Suc k)) sq @ r) = sq # escape_str (replicate (Suc k) sq @ r)"
    by (simp add: escape_str_q_q)
  then show ?case using Suc by simp
qed

lemma well_paired_tl: "well_paired (c # cs) \<Longrightarrow> well_paired cs"
  by (induction "c # cs" arbitrary: c cs rule: well_paired.induct) auto

lemma well_paired_q_q: "well_paired (sq # sq # cs) \<Longrightarrow> cs = [] \<or> hd cs \<noteq> sq"
  by (cases cs) auto

text \<open>Unescaping undoes escaping on a well-paired string.\<close>

lemma unescape_escape_str: "well_paired s \<Longrightarrow> unescape_str (escape_str s) = s"
proof (induction "length s" arbitrary: s rule: less_induct)
  case less
  show ?case
  proof (cases s)
    case Nil
    then show ?thesis by (simp add: escape_str_simps unescape_str_simps)
  next
    case (Cons c cs)
    have wcs: "well_paired cs"
      using less.prems Cons well_paired_tl by blast
    have IHcs: "unescape_str (escape_str cs) = cs"
      using less.hyps[of cs] wcs Cons by simp
    show ?thesis
    proof (cases "c = sq")
      case False
      then show ?thesis
        using IHcs Cons by (simp add: escape_str_Cons_nq unescape_str_Cons_nq)
    next
      case cq: True
      show ?thesis
      proof (cases "cs = [] \<or> hd cs \<noteq> sq")
        case True
        then show ?thesis
          using IHcs Cons cq by (simp add: escape_str_q_nq unescape_str_q_q)
      next
        case False
        then obtain r where r: "cs = sq # r"
          by (cases cs) auto
        have hr: "r = [] \<or> hd r \<noteq> sq"
          using less.prems Cons cq r well_paired_q_q by blast
        have wr: "well_paired r"
          using wcs r well_paired_tl by blast
        have IHr: "unescape_str (escape_str r) = r"
          using less.hyps[of r] wr Cons r by simp
        have "escape_str s = sq # sq # sq # escape_str r"
          using Cons cq r hr by (simp add: escape_str_q_q escape_str_q_nq)
        moreover have "unescape_str (sq # escape_str r) = sq # unescape_str (escape_str r)"
          using escape_str_hd[OF hr] by (rule unescape_str_q_nq)
        ultimately show ?thesis
          using IHr Cons cq r by (simp add: unescape_str_q_q)
      qed
    qed
  qed
qed

lemma unescape_str_run:
  "e = [] \<or> hd e \<noteq> sq \<Longrightarrow>
   unescape_str (replicate n sq @ e) = replicate ((n + 1) div 2) sq @ unescape_str e"
proof (induction n rule: less_induct)
  case (less n)
  show ?case
  proof (cases n)
    case 0
    then show ?thesis by simp
  next
    case (Suc m)
    show ?thesis
    proof (cases m)
      case 0
      then show ?thesis using Suc less.prems by (simp add: unescape_str_q_nq)
    next
      case (Suc j)
      have "unescape_str (replicate j sq @ e) = replicate ((j + 1) div 2) sq @ unescape_str e"
        using less.IH[of j] less.prems \<open>n = Suc m\<close> Suc by simp
      then show ?thesis using \<open>n = Suc m\<close> Suc by (simp add: unescape_str_q_q)
    qed
  qed
qed

lemma well_paired_Cons_nq:
  assumes "c \<noteq> sq"
  shows "well_paired (c # cs) = well_paired cs"
proof (cases cs)
  case (Cons a as)
  then show ?thesis using assms by (cases as) auto
qed simp

lemma well_paired_q_nq:
  assumes "r = [] \<or> hd r \<noteq> sq"
  shows "well_paired (sq # r) = well_paired r"
proof (cases r)
  case (Cons a as)
  then show ?thesis using assms by (cases as) auto
qed simp

lemma well_paired_q_q_nq:
  assumes "r = [] \<or> hd r \<noteq> sq"
  shows "well_paired (sq # sq # r) = well_paired r"
proof (cases r)
  case (Cons a as)
  then have "well_paired (sq # sq # r) = well_paired (sq # r)" using assms by simp
  then show ?thesis using well_paired_q_nq[OF assms] by simp
qed simp

lemma quote_run:
  "\<exists>k r. sq # cs = replicate (Suc k) sq @ r \<and> (r = [] \<or> hd r \<noteq> sq)"
proof (induction cs)
  case Nil
  show ?case by (rule exI[of _ 0], rule exI[of _ "[]"]) simp
next
  case (Cons c cs)
  show ?case
  proof (cases "c = sq")
    case True
    obtain k r where "sq # cs = replicate (Suc k) sq @ r" "r = [] \<or> hd r \<noteq> sq"
      using Cons by blast
    then show ?thesis using True
      by (intro exI[of _ "Suc k"] exI[of _ r]) simp
  next
    case False
    then show ?thesis by (intro exI[of _ 0] exI[of _ "c # cs"]) simp
  qed
qed

lemma length_unescape_escape:
  "length (unescape_str (escape_str s)) \<le> length s \<and>
   (\<not> well_paired s \<longrightarrow> length (unescape_str (escape_str s)) < length s)"
proof (induction "length s" arbitrary: s rule: less_induct)
  case less
  show ?case
  proof (cases s)
    case Nil
    then show ?thesis by (simp add: escape_str_simps unescape_str_simps)
  next
    case (Cons c cs)
    show ?thesis
    proof (cases "c = sq")
      case False
      have "unescape_str (escape_str s) = c # unescape_str (escape_str cs)"
        using False Cons by (simp add: escape_str_Cons_nq unescape_str_Cons_nq)
      then show ?thesis
        using less[of cs] Cons False by (simp add: well_paired_Cons_nq)
    next
      case True
      obtain k r where kr: "s = replicate (Suc k) sq @ r" "r = [] \<or> hd r \<noteq> sq"
        using quote_run[of cs] Cons True by auto
      have E: "escape_str s = replicate (Suc (Suc k)) sq @ escape_str r"
        unfolding kr(1) by (rule escape_str_run[OF kr(2)])
      have U: "unescape_str (escape_str s) =
                 replicate ((Suc (Suc k) + 1) div 2) sq @ unescape_str (escape_str r)"
        unfolding E by (rule unescape_str_run[OF escape_str_hd[OF kr(2)]])
      have lr: "length r < length s" using kr(1) by simp
      note IH = less[OF lr]
      have len: "length (unescape_str (escape_str s)) =
                   (k + 3) div 2 + length (unescape_str (escape_str r))"
        unfolding U by simp
      have ls: "length s = Suc k + length r" using kr(1) by simp
      show ?thesis
      proof (cases "k < 2")
        case False
        then have "(k + 3) div 2 < Suc k" by arith
        then show ?thesis using len ls IH by simp
      next
        case k2: True
        then have "(k + 3) div 2 = Suc k" by arith
        moreover have "well_paired s = well_paired r"
        proof (cases "k = 0")
          case True
          then show ?thesis using kr well_paired_q_nq by simp
        next
          case False
          then have "k = 1" using k2 by simp
          then show ?thesis using kr well_paired_q_q_nq by simp
        qed
        ultimately show ?thesis using len ls IH by simp
      qed
    qed
  qed
qed

text \<open>
  The well-paired strings are exactly the strings that escaping followed by unescaping
  gives back: a run of three or more single quotes comes back shorter.
\<close>

lemma round_trip_iff_well_paired: "unescape_str (escape_str s) = s \<longleftrightarrow> well_paired s"
  using unescape_escape_str[of s] length_unescape_escape[of s] by auto

section \<open>Escaping a string leaf\<close>




section \<open>Concrete documents\<close>

lemma str_of_int_2: "str_of_int 2 = ''2''"
  by code_simp

lemma depth_two: "2 \<le> depth \<Longrightarrow> \<exists>n. depth = Suc (Suc n)"
  by (metis add_2_eq_Suc le_Suc_ex)

text \<open>
  C6. In any store where the caller's document is \<^verbatim>\<open>{"allowed_failures": 2}\<close>, and with
  recursion depth left for the walk over the copy and its one value, the call returns a
  new dictionary \<^verbatim>\<open>{"allowed_failures": "2", "build": {}, "run": {}}\<close>: it is allocated
  behind the existing objects, followed by the two new empty dictionaries.
\<close>

theorem parse_allowed_failures_2:
  assumes "a < length h"
    and "h ! a = PDict [(''allowed_failures'', PInt 2)]"
    and "2 \<le> depth"
  shows "parse_specification cstr depth h (PRef a) =
           Inr (h @ [PDict [(''allowed_failures'', PStr ''2''),
                            (''build'', PRef (length h + 1)),
                            (''run'', PRef (length h + 2))],
                     PDict [], PDict []],
                PRef (length h))"
proof -
  obtain n where n: "depth = Suc (Suc n)"
    using assms(3) depth_two by blast
  show ?thesis
    using assms(1,2)
    by (simp add: n parse_specification_def py_copy_def deref_def alloc_def
        escape_single_quotes_def py_getitem_def py_setitem_def py_contains_def
        default_empty_def py_str_def str_of_int_2 nth_append)
qed

theorem parse_allowed_failures_2_witness:
  "parse_specification (\<lambda>h a. []) 2 [PDict [(''allowed_failures'', PInt 2)]] (PRef 0) =
     Inr ([PDict [(''allowed_failures'', PInt 2)],
           PDict [(''allowed_failures'', PStr ''2''), (''build'', PRef 2), (''run'', PRef 3)],
           PDict [], PDict []],
          PRef 1)"
  using parse_allowed_failures_2 [of 0 "[PDict [(''allowed_failures'', PInt 2)]]" 2 "\<lambda>h a. []"]
  by simp

text \<open>
  C7. Parsing \<^verbatim>\<open>{"note": "O'Reilly"}\<close> gives a document whose \<^verbatim>\<open>note\<close> is
  \<^verbatim>\<open>O''Reilly\<close>, and unparsing \<^verbatim>\<open>{"note": "O''Reilly"}\<close> gives one whose \<^verbatim>\<open>note\<close> is
  \<^verbatim>\<open>O'Reilly\<close>, in any store and with recursion depth left for the copy and its value.
\<close>

theorem note_quote_escaped_and_unescaped:
  "a < length h \<and> 2 \<le> depth \<longrightarrow>
   (h ! a = PDict [(''note'', PStr (''O'' @ [sq] @ ''Reilly''))] \<longrightarrow>
      (\<exists>h' r. parse_specification cstr depth h (PRef a) = Inr (h', r) \<and>
         py_getitem h' r ''note'' = Inr (PStr (''O'' @ [sq, sq] @ ''Reilly'')))) \<and>
   (h ! a = PDict [(''note'', PStr (''O'' @ [sq, sq] @ ''Reilly''))] \<longrightarrow>
      (\<exists>h' r. unparse_specification depth h (PRef a) = Inr (h', r) \<and>
         py_getitem h' r ''note'' = Inr (PStr (''O'' @ [sq] @ ''Reilly''))))"
proof (intro impI conjI; elim conjE)
  assume a: "a < length h" and d: "2 \<le> depth"
  obtain n where n: "depth = Suc (Suc n)"
    using d depth_two by blast
  {
    assume "h ! a = PDict [(''note'', PStr (''O'' @ [sq] @ ''Reilly''))]"
    then show "\<exists>h' r. parse_specification cstr depth h (PRef a) = Inr (h', r) \<and>
         py_getitem h' r ''note'' = Inr (PStr (''O'' @ [sq, sq] @ ''Reilly''))"
      using a
      by (simp add: n parse_specification_def py_copy_def deref_def alloc_def
          escape_single_quotes_def py_getitem_def py_setitem_def py_contains_def
          default_empty_def nth_append escape_str_simps)
  }
  {
    assume "h ! a = PDict [(''note'', PStr (''O'' @ [sq, sq] @ ''Reilly''))]"
    then show "\<exists>h' r. unparse_specification depth h (PRef a) = Inr (h', r) \<and>
         py_getitem h' r ''note'' = Inr (PStr (''O'' @ [sq] @ ''Reilly''))"
      using a
      by (simp add: n unparse_specification_def py_copy_def deref_def alloc_def
          unescape_single_quotes_def py_getitem_def py_setitem_def py_contains_def
          nth_append unescape_str_simps)
  }
qed

theorem note_quote_escaped_and_unescaped_witness:
  "(\<exists>h' r. parse_specification (\<lambda>h a. []) 2
               [PDict [(''note'', PStr (''O'' @ [sq] @ ''Reilly''))]] (PRef 0) = Inr (h', r) \<and>
           py_getitem h' r ''note'' = Inr (PStr (''O'' @ [sq, sq] @ ''Reilly''))) \<and>
   (\<exists>h' r. unparse_specification 2
               [PDict [(''note'', PStr (''O'' @ [sq, sq] @ ''Reilly''))]] (PRef 0) = Inr (h', r) \<and>
           py_getitem h' r ''note'' = Inr (PStr (''O'' @ [sq] @ ''Reilly'')))"
  using note_quote_escaped_and_unescaped
          [of 0 "[PDict [(''note'', PStr (''O'' @ [sq] @ ''Reilly''))]]" 2 "\<lambda>h a. []"]
        note_quote_escaped_and_unescaped
          [of 0 "[PDict [(''note'', PStr (''O'' @ [sq, sq] @ ''Reilly''))]]" 2 "\<lambda>h a. []"]
  by simp

section \<open>The caller's document after parsing\<close>

text \<open>
  C2 at the document \<^verbatim>\<open>{"build": {"note": "it's"}}\<close>. The copy that
  \<^verbatim>\<open>_parse_specification\<close> works on is shallow: it is a new top-level dictionary (at
  address 2) whose \<^verbatim>\<open>build\<close> is the caller's nested dictionary (at address 1), and the
  walk escapes the strings of that dictionary in place. After the call the caller's
  document reads \<^verbatim>\<open>{"build": {"note": "it''s"}}\<close>. Only the caller's top-level
  dictionary is safe from the call: it keeps its keys and the values bound to them
  (\<open>parse_tree_keys\<close> below).
\<close>

theorem parse_changes_nested_dict_of_caller:
  "parse_specification cstr 3
     [PDict [(''build'', PRef 1)], PDict [(''note'', PStr (''it'' @ [sq] @ ''s''))]] (PRef 0) =
   Inr ([PDict [(''build'', PRef 1)],
         PDict [(''note'', PStr (''it'' @ [sq, sq] @ ''s''))],
         PDict [(''build'', PRef 1), (''run'', PRef 3)],
         PDict []],
        PRef 2)"
  by (simp add: parse_specification_def py_copy_def deref_def alloc_def
      escape_single_quotes_def py_getitem_def py_setitem_def py_contains_def
      default_empty_def escape_str_simps eval_nat_numeral)

section \<open>Default requests\<close>

lemma map_of_update_other: "k \<noteq> k' \<Longrightarrow> map_of (AList.update k v al) k' = map_of al k'"
  by (simp add: update_conv')

lemma map_of_update_same: "map_of (AList.update k v al) k = Some v"
  by (simp add: update_conv')

lemma update_new_key: "map_of al k = None \<Longrightarrow> AList.update k v al = al @ [(k, v)]"
  by (induction al) (auto split: if_splits)

lemma py_truthy_update:
  assumes "py_truthy h v = Inr t" and "r < length h" and "h ! r = PDict rs" and "rs \<noteq> []"
  shows "py_truthy (h[r := PDict (AList.update k w rs)]) v = Inr t"
proof (cases v)
  case (PRef x)
  show ?thesis
  proof (cases "x = r")
    case True
    have "AList.update k w rs \<noteq> []" using assms(4) by (cases rs) auto
    then show ?thesis using assms PRef True by (simp add: py_truthy_def deref_def)
  next
    case False
    then show ?thesis using assms PRef by (auto simp add: py_truthy_def deref_def split: if_splits)
  qed
qed (use assms in \<open>simp_all add: py_truthy_def\<close>)

text \<open>
  C10. \<^verbatim>\<open>_adjust_default_requests\<close> works on the dictionary that it is given, at its
  address \<open>a\<close> in the store, and returns nothing else. When the dictionary has no
  \<^verbatim>\<open>requests\<close>, a new dictionary is allocated and stored under that key, and it ends
  up holding the two defaults. When \<^verbatim>\<open>requests\<close> is the dictionary at \<open>r\<close>, that
  dictionary is updated in place: for each of \<^verbatim>\<open>cpu\<close> and \<^verbatim>\<open>memory\<close>, the value that
  \<^verbatim>\<open>get\<close> finds is kept when it is truthy, and is replaced by the default \<^verbatim>\<open>500m\<close> or
  \<^verbatim>\<open>256Mi\<close> when it is falsy, which includes the \<^verbatim>\<open>None\<close> that \<^verbatim>\<open>get\<close> returns for
  an absent key.
\<close>

theorem adjust_default_requests_effect:
  assumes "a < length h" and "h ! a = PDict kvs"
  shows
   "(map_of kvs ''requests'' = None \<longrightarrow>
       adjust_default_requests h (PRef a) =
         Inr ((h @ [PDict [(''cpu'', PStr ''500m''), (''memory'', PStr ''256Mi'')]])
                [a := PDict (kvs @ [(''requests'', PRef (length h))])])) \<and>
    (map_of kvs ''requests'' = Some (PRef r) \<and> r < length h \<and> h ! r = PDict rs \<and>
     py_get h (PRef r) ''cpu'' = Inr c \<and> py_truthy h c = Inr tc \<and>
     py_get h (PRef r) ''memory'' = Inr m \<and> py_truthy h m = Inr tm \<longrightarrow>
       adjust_default_requests h (PRef a) =
         Inr (h[r := PDict (AList.update ''memory'' (if tm then m else PStr ''256Mi'')
                             (AList.update ''cpu'' (if tc then c else PStr ''500m'') rs))]))"
proof (intro conjI impI)
  assume none: "map_of kvs ''requests'' = None"
  have notin: "''requests'' \<notin> fst ` set kvs"
    using none by (simp add: map_of_eq_None_iff)
  have ne: "a \<noteq> length h" using assms(1) by simp
  let ?n = "length h"
  let ?h1 = "(h @ [PDict []])[a := PDict (kvs @ [(''requests'', PRef ?n)])]"
  let ?h2 = "?h1[?n := PDict [(''cpu'', PStr ''500m'')]]"
  let ?h3 = "?h2[?n := PDict [(''cpu'', PStr ''500m''), (''memory'', PStr ''256Mi'')]]"
  have step0: "default_empty h (PRef a) ''requests'' = Inr ?h1"
    using assms notin
    by (simp add: default_empty_def py_contains_def deref_def alloc_def py_setitem_def
        nth_append update_new_key none)
  have look: "map_of (kvs @ [(''requests'', PRef ?n)]) ''requests'' = Some (PRef ?n)"
    using none by (simp add: map_add_def)
  have req1: "py_getitem ?h1 (PRef a) ''requests'' = Inr (PRef ?n)"
    using assms(1) look by (simp add: py_getitem_def deref_def)
  have step1: "assign_default_request ?h1 (PRef a) ''cpu'' = Inr ?h2"
    using req1 ne
    by (simp add: assign_default_request_def py_get_def deref_def py_truthy_def
        default_request_def DEFAULT_REQUESTS_def py_setitem_def)
  have req2: "py_getitem ?h2 (PRef a) ''requests'' = Inr (PRef ?n)"
    using assms(1) look ne by (simp add: py_getitem_def deref_def)
  have step2: "assign_default_request ?h2 (PRef a) ''memory'' = Inr ?h3"
    using req2 ne
    by (simp add: assign_default_request_def py_get_def deref_def py_truthy_def
        default_request_def DEFAULT_REQUESTS_def py_setitem_def)
  have "?h3 = (h @ [PDict [(''cpu'', PStr ''500m''), (''memory'', PStr ''256Mi'')]])
                [a := PDict (kvs @ [(''requests'', PRef (length h))])]"
    using assms(1) by (simp add: list_update_append list_update_swap)
  then show "adjust_default_requests h (PRef a) =
         Inr ((h @ [PDict [(''cpu'', PStr ''500m''), (''memory'', PStr ''256Mi'')]])
                [a := PDict (kvs @ [(''requests'', PRef (length h))])])"
    using step0 step1 step2 by (simp add: adjust_default_requests_def)
next
  show "adjust_default_requests h (PRef a) =
         Inr (h[r := PDict (AList.update ''memory'' (if tm then m else PStr ''256Mi'')
                             (AList.update ''cpu'' (if tc then c else PStr ''500m'') rs))])" 
   if "map_of kvs ''requests'' = Some (PRef r) \<and> r < length h \<and> h ! r = PDict rs \<and>
     py_get h (PRef r) ''cpu'' = Inr c \<and> py_truthy h c = Inr tc \<and>
     py_get h (PRef r) ''memory'' = Inr m \<and> py_truthy h m = Inr tm"
  proof -
    from that have req: "map_of kvs ''requests'' = Some (PRef r)" and r: "r < length h" "h ! r = PDict rs"
      and c: "py_get h (PRef r) ''cpu'' = Inr c" "py_truthy h c = Inr tc"
      and m: "py_get h (PRef r) ''memory'' = Inr m" "py_truthy h m = Inr tm"
      by simp_all
    have isin: "''requests'' \<in> fst ` set kvs"
      using req by (metis map_of_eq_None_iff option.distinct(1))
    let ?vc = "if tc then c else PStr ''500m''"
    let ?h2 = "h[r := PDict (AList.update ''cpu'' ?vc rs)]"
    have step1: "assign_default_request h (PRef a) ''cpu'' = Inr ?h2"
      using assms req r c
      by (simp add: assign_default_request_def py_getitem_def deref_def py_setitem_def
          default_request_def DEFAULT_REQUESTS_def)
    have req2: "py_getitem ?h2 (PRef a) ''requests'' = Inr (PRef r)"
      using assms req r
      by (cases "a = r") (simp_all add: py_getitem_def deref_def map_of_update_other)
    have get2: "py_get ?h2 (PRef r) ''memory'' = Inr m"
      using m(1) r by (simp add: py_get_def deref_def map_of_update_other)
    have tr2: "py_truthy ?h2 m = Inr tm"
    proof (cases "rs = []")
      case True
      then have "m = PNone" using m(1) r by (simp add: py_get_def deref_def)
      then show ?thesis using m(2) by (simp add: py_truthy_def)
    next
      case False
      then show ?thesis using py_truthy_update[OF m(2) r] by simp
    qed
    have step2: "assign_default_request ?h2 (PRef a) ''memory'' =
        Inr (?h2[r := PDict (AList.update ''memory'' (if tm then m else PStr ''256Mi'')
                             (AList.update ''cpu'' ?vc rs))])"
      using req2 get2 tr2 r
      by (simp add: assign_default_request_def py_setitem_def deref_def
          default_request_def DEFAULT_REQUESTS_def)
    have step0: "default_empty h (PRef a) ''requests'' = Inr h"
      using assms isin by (simp add: default_empty_def py_contains_def deref_def)
    show ?thesis
      using step0 step1 step2 by (simp add: adjust_default_requests_def)
  qed
qed

theorem adjust_default_requests_effect_witness:
  "adjust_default_requests [PDict []] (PRef 0) =
     Inr [PDict [(''requests'', PRef 1)],
          PDict [(''cpu'', PStr ''500m''), (''memory'', PStr ''256Mi'')]] \<and>
   adjust_default_requests
       [PDict [(''requests'', PRef 1)], PDict [(''cpu'', PStr []), (''memory'', PStr ''1Gi'')]]
       (PRef 0) =
     Inr [PDict [(''requests'', PRef 1)],
          PDict [(''cpu'', PStr ''500m''), (''memory'', PStr ''1Gi'')]] \<and>
   adjust_default_requests
       [PDict [(''requests'', PRef 1)], PDict [(''cpu'', PNone)]] (PRef 0) =
     Inr [PDict [(''requests'', PRef 1)],
          PDict [(''cpu'', PStr ''500m''), (''memory'', PStr ''256Mi'')]]"
  using adjust_default_requests_effect [of 0 "[PDict []]" "[]"]
    adjust_default_requests_effect
      [of 0 "[PDict [(''requests'', PRef 1)], PDict [(''cpu'', PStr []), (''memory'', PStr ''1Gi'')]]"
          "[(''requests'', PRef 1)]" 1 "[(''cpu'', PStr []), (''memory'', PStr ''1Gi'')]"
          "PStr []" False "PStr ''1Gi''" True]
    adjust_default_requests_effect
      [of 0 "[PDict [(''requests'', PRef 1)], PDict [(''cpu'', PNone)]]"
          "[(''requests'', PRef 1)]" 1 "[(''cpu'', PNone)]" PNone False PNone False]
  by (simp add: py_get_def py_truthy_def deref_def)

section \<open>What the handlers return\<close>

text \<open>
  C9. When the client raises \<^verbatim>\<open>NotFoundException\<close>, \<^verbatim>\<open>get_inspection_job_log\<close> returns
  the response \<^verbatim>\<open>No logs available yet for the given inspection id\<close> with status 202.
  The response \<^verbatim>\<open>Job log for the given inspection id was not found\<close> is never returned,
  whatever the client and \<^verbatim>\<open>json.loads\<close> do and with whatever status.
\<close>

theorem job_log_not_found_gives_202:
  "(get_job_log inspection_id = Inl NotFoundException \<longrightarrow>
      get_inspection_job_log get_job_log json_loads inspection_id =
        Inr (LogError ''No logs available yet for the given inspection id'' inspection_id 202)) \<and>
   get_inspection_job_log get_job_log json_loads inspection_id \<noteq>
     Inr (LogError ''Job log for the given inspection id was not found'' i status)"
  by (auto simp: get_inspection_job_log_def no_logs_yet_def
      split: sum.splits error.splits option.splits)

theorem job_log_not_found_gives_202_witness:
  "get_inspection_job_log (\<lambda>i. Inl NotFoundException) (\<lambda>s. Inr s) ''inspection-1'' =
     Inr (LogError ''No logs available yet for the given inspection id'' ''inspection-1'' 202)"
  using job_log_not_found_gives_202
          [of "\<lambda>i. Inl NotFoundException" "''inspection-1''" "\<lambda>s. Inr s" "[]" 0]
  by simp

text \<open>
  The function arrives at its last statement with eight local variables, none of them
  named \<^verbatim>\<open>inspection_id\<close>; if it ends before, it is with the 400 response.
\<close>

lemma body_locals:
  "post_inspection_body cd si created cstr depth h spec = Inr (h', Inr locals) \<Longrightarrow>
   map_of locals ''inspection_id'' = None"
  by (auto simp: post_inspection_body_def Let_def split: sum.splits prod.splits if_splits)

lemma body_early:
  "post_inspection_body cd si created cstr depth h spec = Inr (h', Inl response) \<Longrightarrow>
   \<exists>e. response = InspectionError spec e 400"
  by (auto simp: post_inspection_body_def Let_def split: sum.splits prod.splits if_splits)

text \<open>
  C4. Whenever \<^verbatim>\<open>post_inspection\<close> arrives at its last statement, that is, the
  Dockerfile was generated, the calls in between completed and the scheduling call
  returned a workflow identifier, the call raises \<^verbatim>\<open>NameError\<close> for \<^verbatim>\<open>inspection_id\<close>.
  The response with the workflow identifier is never returned.
\<close>

theorem post_inspection_unbound_name:
  "(post_inspection_body cd si created cstr depth h spec = Inr (h', Inr locals) \<longrightarrow>
      post_inspection cd si created cstr depth h spec = Inl (NameError ''inspection_id'')) \<and>
   post_inspection cd si created cstr depth h spec \<noteq>
     Inr (h'', InspectionScheduled b1 b2 b3 b4 status)"
proof -
  have nm: "map_of ls ''inspection_id'' = None \<Longrightarrow>
        post_inspection_return ls = Inl (NameError ''inspection_id'')" for ls
    by (simp add: post_inspection_return_def load_name_def module_globals_def)
  show ?thesis
    using nm body_locals[of cd si created cstr depth h spec]
      body_early[of cd si created cstr depth h spec]
    by (auto simp: post_inspection_def split: sum.splits prod.splits)
qed

theorem post_inspection_unbound_name_witness:
  "post_inspection_body (\<lambda>h s. Inr (h, PStr ''FROM fedora'', PBool True))
       (\<lambda>h d s t p. Inr (h, PStr ''inspection-1'')) ''2020-01-01T00:00:00'' (\<lambda>h a. [])
       1 [PDict []] (PRef 0) =
     Inr ([PDict [],
           PDict [(''build'', PRef 2), (''run'', PRef 3), (''@created'', PStr ''2020-01-01T00:00:00'')],
           PDict [(''requests'', PRef 5)],
           PDict [(''requests'', PRef 4)],
           PDict [(''cpu'', PStr ''500m''), (''memory'', PStr ''256Mi'')],
           PDict [(''cpu'', PStr ''500m''), (''memory'', PStr ''256Mi'')],
           PDict [], PDict [], PDict []],
          Inr [(''workflow_id'', PStr ''inspection-1''),
               (''dockerfile'', PStr ''FROM fedora''),
               (''target'', PStr ''inspection-run-result''),
               (''use_hw_template'', PBool False),
               (''parameters'', PRef 7),
               (''specification'', PRef 1),
               (''run_job'', PBool True),
               (''run_job_or_error'', PBool True)]) \<and>
   post_inspection (\<lambda>h s. Inr (h, PStr ''FROM fedora'', PBool True))
       (\<lambda>h d s t p. Inr (h, PStr ''inspection-1'')) ''2020-01-01T00:00:00'' (\<lambda>h a. [])
       1 [PDict []] (PRef 0) = Inl (NameError ''inspection_id'')"
proof -
  have body: "post_inspection_body (\<lambda>h s. Inr (h, PStr ''FROM fedora'', PBool True))
       (\<lambda>h d s t p. Inr (h, PStr ''inspection-1'')) ''2020-01-01T00:00:00'' (\<lambda>h a. [])
       1 [PDict []] (PRef 0) =
     Inr ([PDict [],
           PDict [(''build'', PRef 2), (''run'', PRef 3), (''@created'', PStr ''2020-01-01T00:00:00'')],
           PDict [(''requests'', PRef 5)],
           PDict [(''requests'', PRef 4)],
           PDict [(''cpu'', PStr ''500m''), (''memory'', PStr ''256Mi'')],
           PDict [(''cpu'', PStr ''500m''), (''memory'', PStr ''256Mi'')],
           PDict [], PDict [], PDict []],
          Inr [(''workflow_id'', PStr ''inspection-1''),
               (''dockerfile'', PStr ''FROM fedora''),
               (''target'', PStr ''inspection-run-result''),
               (''use_hw_template'', PBool False),
               (''parameters'', PRef 7),
               (''specification'', PRef 1),
               (''run_job'', PBool True),
               (''run_job_or_error'', PBool True)])"
    by code_simp
  show ?thesis
    using body post_inspection_unbound_name
      [of "\<lambda>h s. Inr (h, PStr ''FROM fedora'', PBool True)"
          "\<lambda>h d s t p. Inr (h, PStr ''inspection-1'')" "''2020-01-01T00:00:00''" "\<lambda>h a. []"
          1 "[PDict []]" "PRef 0"]
    by simp
qed


section \<open>The walk on a document\<close>


lemma root_amap_ref: "root t = PRef a \<Longrightarrow> root (amap f t) = PRef a"
  by (cases t) auto








lemma adepth_pos: "0 < adepth t"
  by (cases t) auto







section \<open>The casting loops and the defaults\<close>















section \<open>Parsing and unparsing a document\<close>














end
